theory Spec2Isabelle
  imports Main
begin

section \<open>The importmagic.el server (importmagicserver.py)\<close>

text \<open>
  The server is glue between an Emacs client and the \<^verbatim>\<open>importmagic\<close> Python
  library. It keeps one process-wide variable, \<^verbatim>\<open>index\<close>, and registers four
  functions. The library is not part of the server: below it is a parameter, a record
  of the operations the server calls, each returning its value or the exception it
  raises.
\<close>

subsection \<open>Exceptions and outcomes\<close>

text \<open>
  \<^item> \<open>AttributeError\<close>: an attribute looked up on \<^verbatim>\<open>None\<close>;
  \<^item> \<open>IndexError\<close>: a tuple subscript out of range;
  \<^item> \<open>SystemExit c\<close>: raised by \<^verbatim>\<open>sys.exit(c)\<close>;
  \<^item> \<open>LibraryError n\<close>: an exception of class \<open>n\<close> raised inside the library.
\<close>

datatype exn = AttributeError | IndexError | SystemExit int | LibraryError string

text \<open>Sequencing of two steps: the exception of the first step skips the second.\<close>

definition and_then :: "exn + 'a \<Rightarrow> ('a \<Rightarrow> exn + 'b) \<Rightarrow> exn + 'b" where
  "and_then r f = (case r of Inl e \<Rightarrow> Inl e | Inr v \<Rightarrow> f v)"

subsection \<open>The library, as the server sees it\<close>

text \<open>
  \<^item> \<open>SymbolIndex\<close>: the constructor \<^verbatim>\<open>importmagic.SymbolIndex()\<close>;
  \<^item> \<open>SymbolIndex_build_index i paths\<close>: the method \<^verbatim>\<open>build_index(paths=...)\<close>,
    which changes the index in place: the index afterwards, and the exception if one
    was raised on the way;
  \<^item> \<open>SymbolIndex_symbol_scores i symbol\<close>: the triples
    \<^verbatim>\<open>(score, module, variable)\<close> in the order the library yields them,
    \<^verbatim>\<open>variable\<close> being \<^verbatim>\<open>None\<close> or a name;
  \<^item> \<open>Scope_from_source\<close>, \<open>Scope_find_unresolved_and_unreferenced_symbols\<close>:
    the two sets the latter returns are lists here, in their iteration order;
  \<^item> \<open>Imports index source\<close>: the constructor \<^verbatim>\<open>importmagic.importer.Imports\<close>,
    which receives the value of the global (possibly \<^verbatim>\<open>None\<close>);
  \<^item> \<open>Imports_add_import\<close>, \<open>Imports_add_import_from\<close>, \<open>Imports_get_update\<close>:
    its methods.
\<close>

record ('idx, 'scope, 'imports, 'score) importmagic =
  SymbolIndex :: "exn + 'idx"
  SymbolIndex_build_index :: "'idx \<Rightarrow> string list \<Rightarrow> exn option \<times> 'idx"
  SymbolIndex_symbol_scores ::
    "'idx \<Rightarrow> string \<Rightarrow> exn + ('score \<times> string \<times> string option) list"
  Scope_from_source :: "string \<Rightarrow> exn + 'scope"
  Scope_find_unresolved_and_unreferenced_symbols ::
    "'scope \<Rightarrow> exn + (string list \<times> string list)"
  Imports :: "'idx option \<Rightarrow> string \<Rightarrow> exn + 'imports"
  Imports_add_import :: "'imports \<Rightarrow> string \<Rightarrow> exn + 'imports"
  Imports_add_import_from :: "'imports \<Rightarrow> string \<Rightarrow> string \<Rightarrow> exn + 'imports"
  Imports_get_update :: "'imports \<Rightarrow> exn + (int \<times> int \<times> string)"

subsection \<open>The state of the process\<close>

text \<open>
  The global \<^verbatim>\<open>index\<close> (\<^verbatim>\<open>None\<close> until the first build), the interpreter's
  \<^verbatim>\<open>sys.path\<close>, and the lines printed so far.
\<close>

record 'idx process =
  index :: "'idx option"
  sys_path :: "string list"
  stdout :: "string list"

subsection \<open>Strings\<close>

text \<open>\<^verbatim>\<open>_stringify\<close>: \<^verbatim>\<open>''.join(input_param)\<close>.\<close>

definition stringify :: "string list \<Rightarrow> string" where
  "stringify input_param = concat input_param"

text \<open>\<^verbatim>\<open>s.startswith(p)\<close>.\<close>

definition startswith :: "string \<Rightarrow> string \<Rightarrow> bool" where
  "startswith s p = (take (length p) s = p)"

text \<open>
  \<^verbatim>\<open>s.find(sub)\<close>: the lowest index at which \<open>sub\<close> occurs in \<open>s\<close>, or
  \<open>-1\<close>. \<open>find_from s sub i\<close> scans \<open>s\<close>, whose first character has index \<open>i\<close>.
\<close>

fun find_from :: "string \<Rightarrow> string \<Rightarrow> int \<Rightarrow> int" where
  "find_from [] sub i = (if sub = [] then i else - 1)"
| "find_from (c # cs) sub i =
     (if startswith (c # cs) sub then i else find_from cs sub (i + 1))"

definition str_find :: "string \<Rightarrow> string \<Rightarrow> int" where
  "str_find s sub = find_from s sub 0"

text \<open>
  Slices. A negative bound counts from the end, and every bound is clamped to the
  string: \<^verbatim>\<open>s[start:stop]\<close> and \<^verbatim>\<open>s[start:]\<close>.
\<close>

definition slice_bound :: "string \<Rightarrow> int \<Rightarrow> nat" where
  "slice_bound s i =
     (let n = int (length s) in nat (if i < 0 then max (i + n) 0 else min i n))"

definition slice :: "string \<Rightarrow> int \<Rightarrow> int \<Rightarrow> string" where
  "slice s start stop =
     (let a = slice_bound s start; b = slice_bound s stop in take (b - a) (drop a s))"

definition slice_from :: "string \<Rightarrow> int \<Rightarrow> string" where
  "slice_from s start = drop (slice_bound s start) s"

subsection \<open>The registered functions\<close>

text \<open>
  Each function takes the library, its arguments (\<^verbatim>\<open>*args\<close>: a tuple of strings,
  joined by \<open>stringify\<close>) and the state of the process, and returns its value or the
  exception it raises, with the state afterwards.
\<close>

text \<open>
  \<^verbatim>\<open>build_index(*path)\<close>. The global is bound to the new index before the
  library builds it in place, so it holds that index also when the build raises. The
  \<^verbatim>\<open>except:\<close> clause catches every exception, prints and calls
  \<^verbatim>\<open>sys.exit(-1)\<close>.
\<close>

definition build_index ::
  "('idx, 'scope, 'imports, 'score) importmagic \<Rightarrow> string list \<Rightarrow> 'idx process
     \<Rightarrow> (exn + unit) \<times> 'idx process" where
  "build_index lib path st =
     (let fullpath = sys_path st @ [stringify path];
          failed = (\<lambda>s. (Inl (SystemExit (- 1)),
                     s\<lparr>stdout := stdout s @ [''Failed to build index'']\<rparr>))
      in case SymbolIndex lib of
           Inl e \<Rightarrow> failed st
         | Inr new \<Rightarrow>
             (case SymbolIndex_build_index lib new fullpath of
                (None, index') \<Rightarrow> (Inr (), st\<lparr>index := Some index'\<rparr>)
              | (Some e, index') \<Rightarrow> failed (st\<lparr>index := Some index'\<rparr>)))"

text \<open>\<^verbatim>\<open>get_unresolved_symbols(*source)\<close>.\<close>

definition get_unresolved_symbols ::
  "('idx, 'scope, 'imports, 'score) importmagic \<Rightarrow> string list \<Rightarrow> 'idx process
     \<Rightarrow> (exn + string list) \<times> 'idx process" where
  "get_unresolved_symbols lib source st =
     (let source' = stringify source in
      (and_then (Scope_from_source lib source') (\<lambda>scope.
       and_then (Scope_find_unresolved_and_unreferenced_symbols lib scope)
         (\<lambda>(unres, unref). Inr unres)), st))"

text \<open>
  \<^verbatim>\<open>get_candidates_for_symbol(*symbol)\<close>. \<open>format_candidate\<close> is the body of the
  loop up to \<^verbatim>\<open>fmt\<close>, \<open>collect_candidates\<close> the loop with its \<^verbatim>\<open>deque\<close>.
  The module and the variable are strings, on which \<^verbatim>\<open>str\<close> is the identity.
  With the global still \<^verbatim>\<open>None\<close>, \<^verbatim>\<open>index.symbol_scores\<close> raises.
\<close>

fun format_candidate :: "'score \<times> string \<times> string option \<Rightarrow> string" where
  "format_candidate (score, module, None) = ''import '' @ module"
| "format_candidate (score, module, Some variable) =
     ''from '' @ module @ '' import '' @ variable"

fun collect_candidates ::
  "('score \<times> string \<times> string option) list \<Rightarrow> string list \<Rightarrow> string list" where
  "collect_candidates [] candidates = candidates"
| "collect_candidates (t # rest) candidates =
     collect_candidates rest (candidates @ [format_candidate t])"

definition get_candidates_for_symbol ::
  "('idx, 'scope, 'imports, 'score) importmagic \<Rightarrow> string list \<Rightarrow> 'idx process
     \<Rightarrow> (exn + string list) \<times> 'idx process" where
  "get_candidates_for_symbol lib symbol st =
     (let symbol' = stringify symbol in
      (case index st of
         None \<Rightarrow> Inl AttributeError
       | Some i \<Rightarrow>
           and_then (SymbolIndex_symbol_scores lib i symbol')
             (\<lambda>scores. Inr (collect_candidates scores [])), st))"

text \<open>
  \<^verbatim>\<open>get_import_statement(*source_and_import)\<close>. The two subscripts come first, and
  raise when there are fewer than two arguments. The value returned is the list
  \<^verbatim>\<open>[start, end, new_statement]\<close>, a triple here.
\<close>

definition get_import_statement ::
  "('idx, 'scope, 'imports, 'score) importmagic \<Rightarrow> string list list \<Rightarrow> 'idx process
     \<Rightarrow> (exn + int \<times> int \<times> string) \<times> 'idx process" where
  "get_import_statement lib source_and_import st =
     (if length source_and_import < 2 then (Inl IndexError, st)
      else
        let source = stringify (source_and_import ! 0);
            import_statement = stringify (source_and_import ! 1)
        in
        (and_then (Imports lib (index st) source) (\<lambda>imports.
         and_then
           (if startswith import_statement ''import '' then
              let module = slice_from import_statement 7 in
              Imports_add_import lib imports module
            else
              let separator = str_find import_statement '' import '';
                  module = slice import_statement 5 separator
              in
              if separator \<ge> 0 then
                Imports_add_import_from lib imports
                  (slice import_statement 5 separator)
                  (slice_from import_statement (separator + 8))
              else Inr imports)
           (\<lambda>imports. Imports_get_update lib imports)), st))"

subsection \<open>A stand-in for the library\<close>

text \<open>
  To run the registered functions on concrete arguments, the library parameter needs a
  value. \<open>stand_in\<close> is a small one:
  \<^item> its index is the list of the roots it was asked to walk, in order. A root that
    does not exist is passed over without an exception, as the library does. Its file
    system has one directory, \<^verbatim>\<open>/home/me/locked\<close>, with a file in it that
    cannot be read: as in the library, opening that file raises an
    \<^verbatim>\<open>OSError\<close>, and the roots walked before it stay in the index;
  \<^item> its scores come from a fixed table;
  \<^item> its parser rejects the text \<^verbatim>\<open>(\<close> and accepts every other; its
    unresolved and unreferenced names come from a fixed table;
  \<^item> its import set keeps the index it was given and the statements added; adding a
    statement looks the module up in the index, so it raises on \<^verbatim>\<open>None\<close>;
    the update it returns inserts the added statements at offset 0.
\<close>

record stand_in_imports =
  held_index :: "string list option"
  added :: "string list"

definition stand_in_add :: "stand_in_imports \<Rightarrow> string \<Rightarrow> exn + stand_in_imports" where
  "stand_in_add imports statement =
     (case held_index imports of
        None \<Rightarrow> Inl AttributeError
      | Some i \<Rightarrow> Inr (imports\<lparr>added := added imports @ [statement]\<rparr>))"

fun stand_in_walk :: "string list \<Rightarrow> string list \<Rightarrow> exn option \<times> string list" where
  "stand_in_walk i [] = (None, i)"
| "stand_in_walk i (root # roots) =
     (if root = ''/home/me/locked'' then (Some (LibraryError ''OSError''), i)
      else stand_in_walk (i @ [root]) roots)"

definition stand_in :: "(string list, string, stand_in_imports, int) importmagic" where
  "stand_in =
     \<lparr>SymbolIndex = Inr [],
      SymbolIndex_build_index = stand_in_walk,
      SymbolIndex_symbol_scores = (\<lambda>i symbol.
        if symbol = ''path'' then Inr [(2, ''os'', Some ''path''), (1, ''sys'', Some ''path'')]
        else if symbol = ''os'' then Inr [(1, ''os'', None)]
        else Inr []),
      Scope_from_source = (\<lambda>source.
        if source = ''('' then Inl (LibraryError ''SyntaxError'') else Inr source),
      Scope_find_unresolved_and_unreferenced_symbols = (\<lambda>scope.
        if scope = ''os.getcwd()'' then Inr ([''os.getcwd''], [])
        else if scope = ''import os'' then Inr ([], [''os''])
        else Inr ([], [])),
      Imports = (\<lambda>i source. Inr \<lparr>held_index = i, added = []\<rparr>),
      Imports_add_import = (\<lambda>imports module.
        stand_in_add imports (''import '' @ module)),
      Imports_add_import_from = (\<lambda>imports module name.
        stand_in_add imports (''from '' @ module @ '' import '' @ name)),
      Imports_get_update = (\<lambda>imports.
        Inr (0, 0, concat (map (\<lambda>s. s @ [CHR 0x0A]) (added imports))))\<rparr>"

text \<open>A process that has not built an index yet, and one that has.\<close>

definition fresh :: "string list process" where
  "fresh = \<lparr>index = None, sys_path = [''/usr/lib/python3''], stdout = []\<rparr>"

definition built :: "string list process" where
  "built = fresh\<lparr>index := Some [''/usr/lib/python3'', ''/home/me/project'']\<rparr>"

section \<open>Properties\<close>

subsection \<open>Auxiliary facts\<close>

lemma collect_candidates_append:
  "collect_candidates scores candidates = candidates @ map format_candidate scores"
  by (induction scores arbitrary: candidates) simp_all

lemma concat_singletons: "concat (map (\<lambda>c. [c]) root) = root"
  by (induction root) simp_all

















text \<open>\<open>get_import_statement\<close> on two arguments, the bindings unfolded.\<close>

lemma get_import_statement_two:
  "get_import_statement lib [source, statement] st =
     (and_then (Imports lib (index st) (stringify source)) (\<lambda>imports.
      and_then
        (if startswith (stringify statement) ''import '' then
           Imports_add_import lib imports (slice_from (stringify statement) 7)
         else if str_find (stringify statement) '' import '' \<ge> 0 then
           Imports_add_import_from lib imports
             (slice (stringify statement) 5 (str_find (stringify statement) '' import ''))
             (slice_from (stringify statement) (str_find (stringify statement) '' import '' + 8))
         else Inr imports)
        (Imports_get_update lib)), st)"
  unfolding get_import_statement_def Let_def by (simp cong: if_cong)

subsection \<open>Building the index\<close>

text \<open>
  C1, as the code has it. The arguments of a build are joined into one string, and
  only that string matters: a build with several arguments is the build with their
  concatenation as its single argument. A root supplied alone, whole or character by
  character, is the root the library walks after \<^verbatim>\<open>sys.path\<close>, and on success
  the index the library built from that list becomes the global.
\<close>

theorem build_index_one_joined_root:
  "build_index lib path st = build_index lib [stringify path] st
   \<and> (SymbolIndex lib = Inr new
        \<and> (path = [root] \<or> path = map (\<lambda>c. [c]) root)
        \<and> SymbolIndex_build_index lib new (sys_path st @ [root]) = (None, walked) \<longrightarrow>
      build_index lib path st = (Inr (), st\<lparr>index := Some walked\<rparr>))"
  by (auto simp: build_index_def stringify_def concat_singletons)

theorem build_index_one_joined_root_example:
  "build_index stand_in [''/'', ''a''] fresh = build_index stand_in [''/a''] fresh
   \<and> build_index stand_in [''/'', ''a''] fresh =
       (Inr (), fresh\<lparr>index := Some [''/usr/lib/python3'', ''/a'']\<rparr>)"
  using build_index_one_joined_root[where lib = stand_in and path = "[''/'', ''a'']"
          and st = fresh and new = "[]" and root = "''/a''"
          and walked = "[''/usr/lib/python3'', ''/a'']"]
  by (simp add: build_index_def stand_in_def fresh_def stringify_def)

text \<open>
  C1 as stated fails for a list of two roots: built from the roots \<^verbatim>\<open>/a\<close> and
  \<^verbatim>\<open>/b\<close>, the stand-in's index records that \<^verbatim>\<open>sys.path\<close> and the single
  root \<^verbatim>\<open>/a/b\<close> were walked; neither supplied root was.
\<close>

theorem build_index_two_roots_joined:
  "index (snd (build_index stand_in [''/a'', ''/b''] fresh)) =
     Some [''/usr/lib/python3'', ''/a/b'']"
  by (simp add: build_index_def stand_in_def fresh_def stringify_def)

text \<open>
  C2, as the code has it. When the library's constructor or its build raises, whatever
  the exception, the build prints \<^verbatim>\<open>Failed to build index\<close> and raises
  \<^verbatim>\<open>SystemExit(-1)\<close>; the exception of the library is not passed on. When the
  build of the library returns, the index it built becomes the global and the call
  returns normally.
\<close>

theorem build_index_failure_exits:
  "(SymbolIndex lib = Inl e \<longrightarrow>
      build_index lib path st =
        (Inl (SystemExit (- 1)), st\<lparr>stdout := stdout st @ [''Failed to build index'']\<rparr>))
   \<and> (SymbolIndex lib = Inr new
        \<and> SymbolIndex_build_index lib new (sys_path st @ [stringify path]) = (Some e, touched) \<longrightarrow>
      build_index lib path st =
        (Inl (SystemExit (- 1)),
         st\<lparr>index := Some touched, stdout := stdout st @ [''Failed to build index'']\<rparr>))
   \<and> (SymbolIndex lib = Inr new
        \<and> SymbolIndex_build_index lib new (sys_path st @ [stringify path]) = (None, walked) \<longrightarrow>
      build_index lib path st = (Inr (), st\<lparr>index := Some walked\<rparr>))"
  by (simp add: build_index_def)

theorem build_index_failure_exits_example:
  "build_index (stand_in\<lparr>SymbolIndex := Inl (LibraryError ''MemoryError'')\<rparr>) [''/a''] fresh =
     (Inl (SystemExit (- 1)), fresh\<lparr>stdout := [''Failed to build index'']\<rparr>)
   \<and> build_index stand_in [''/home/me/locked''] fresh =
     (Inl (SystemExit (- 1)),
      fresh\<lparr>index := Some [''/usr/lib/python3''], stdout := [''Failed to build index'']\<rparr>)
   \<and> build_index stand_in [''/a''] fresh =
     (Inr (), fresh\<lparr>index := Some [''/usr/lib/python3'', ''/a'']\<rparr>)"
  using build_index_failure_exits[
          where lib = "stand_in\<lparr>SymbolIndex := Inl (LibraryError ''MemoryError'')\<rparr>"
          and e = "LibraryError ''MemoryError''" and path = "[''/a'']" and st = fresh]
        build_index_failure_exits[where lib = stand_in and path = "[''/home/me/locked'']"
          and st = fresh and new = "[]" and e = "LibraryError ''OSError''"
          and touched = "[''/usr/lib/python3'']"]
        build_index_failure_exits[where lib = stand_in and path = "[''/a'']" and st = fresh
          and new = "[]" and walked = "[''/usr/lib/python3'', ''/a'']"]
  by (simp add: stand_in_def fresh_def stringify_def)

text \<open>
  C2 as stated fails on both counts. A build over a root where a single file cannot be
  read does not complete: the library's \<^verbatim>\<open>OSError\<close> is caught, the message
  is printed and the process is told to exit with status \<open>-1\<close>. A build where no
  root exists does not fail: it returns normally, and no error reaches the caller.
\<close>

theorem build_index_failure_is_exit:
  "build_index stand_in [''/home/me/locked''] fresh =
     (Inl (SystemExit (- 1)),
      fresh\<lparr>index := Some [''/usr/lib/python3''], stdout := [''Failed to build index'']\<rparr>)
   \<and> fst (build_index stand_in [''/nonexistent''] (fresh\<lparr>sys_path := []\<rparr>)) = Inr ()"
  by (simp add: build_index_def stand_in_def fresh_def stringify_def)

text \<open>
  C9. Whatever the arguments, the list the library is asked to walk is
  \<^verbatim>\<open>sys.path\<close> followed by one string, the concatenation of the arguments: the
  global afterwards is the index the library made of that list, and the call returns
  normally exactly when the library did not raise on it.
\<close>

theorem build_index_walks_sys_path_then_joined:
  assumes "SymbolIndex lib = Inr new"
    and "SymbolIndex_build_index lib new (sys_path st @ [concat path]) = (raised, walked)"
  shows "index (snd (build_index lib path st)) = Some walked
    \<and> (fst (build_index lib path st) = Inr ()) = (raised = None)"
  using assms by (cases raised) (simp_all add: build_index_def stringify_def)

theorem build_index_walks_sys_path_then_joined_example:
  "index (snd (build_index stand_in [''/home/me/'', ''project''] fresh)) =
     Some [''/usr/lib/python3'', ''/home/me/project'']
   \<and> fst (build_index stand_in [''/home/me/'', ''project''] fresh) = Inr ()"
  using build_index_walks_sys_path_then_joined[where lib = stand_in and new = "[]"
          and st = fresh and path = "[''/home/me/'', ''project'']" and raised = None
          and walked = "[''/usr/lib/python3'', ''/home/me/project'']"]
  by (simp add: stand_in_def fresh_def)

subsection \<open>Unresolved symbols\<close>

text \<open>
  C6. The parser of the library decides what is valid source. When it raises, the
  call raises the same exception and returns nothing; when it accepts the source, the
  call returns the unresolved names the library found, and only those.
\<close>

theorem unresolved_symbols_error_or_names:
  "(Scope_from_source lib (stringify source) = Inl e \<longrightarrow>
      get_unresolved_symbols lib source st = (Inl e, st))
   \<and> (Scope_from_source lib (stringify source) = Inr scope
        \<and> Scope_find_unresolved_and_unreferenced_symbols lib scope = Inr (unres, unref) \<longrightarrow>
      get_unresolved_symbols lib source st = (Inr unres, st))"
  by (simp add: get_unresolved_symbols_def and_then_def)

theorem unresolved_symbols_error_or_names_example:
  "get_unresolved_symbols stand_in [''(''] built = (Inl (LibraryError ''SyntaxError''), built)
   \<and> get_unresolved_symbols stand_in [''os.'', ''getcwd()''] built = (Inr [''os.getcwd''], built)"
  using unresolved_symbols_error_or_names[where lib = stand_in and source = "[''('']"
          and e = "LibraryError ''SyntaxError''" and st = built]
        unresolved_symbols_error_or_names[where lib = stand_in
          and source = "[''os.'', ''getcwd()'']" and st = built
          and scope = "''os.getcwd()''" and unres = "[''os.getcwd'']" and unref = "[]"]
  by (simp add: stand_in_def stringify_def)

subsection \<open>Candidates\<close>

text \<open>
  C3. With an index built, the candidates are the triples of the library rendered one
  by one, in the library's order: the candidate at each position is
  \<^verbatim>\<open>import <module>\<close> when the triple there has no variable, and
  \<^verbatim>\<open>from <module> import <variable>\<close> when it has one.
\<close>

theorem candidates_rendered_in_order:
  assumes "index st = Some i"
    and "SymbolIndex_symbol_scores lib i (stringify symbol) = Inr scores"
  shows "fst (get_candidates_for_symbol lib symbol st) = Inr (map format_candidate scores)
    \<and> (\<forall>k < length scores. \<forall>score module variable.
          scores ! k = (score, module, variable) \<longrightarrow>
          map format_candidate scores ! k =
            (case variable of
               None \<Rightarrow> ''import '' @ module
             | Some v \<Rightarrow> ''from '' @ module @ '' import '' @ v))"
  using assms
  by (auto simp: get_candidates_for_symbol_def and_then_def collect_candidates_append
           split: option.splits)

theorem candidates_rendered_in_order_example:
  "fst (get_candidates_for_symbol stand_in [''p'', ''a'', ''t'', ''h''] built) =
     Inr [''from os import path'', ''from sys import path'']"
  using candidates_rendered_in_order[where st = built
          and i = "[''/usr/lib/python3'', ''/home/me/project'']"
          and lib = stand_in and symbol = "[''p'', ''a'', ''t'', ''h'']"
          and scores = "[(2, ''os'', Some ''path''), (1, ''sys'', Some ''path'')]"]
  by (simp add: built_def fresh_def stand_in_def stringify_def)

text \<open>
  C7. The value of a call is a function of the name and of the index alone: two
  processes that hold the same index give the same candidates for the same name,
  whatever else differs between them and however the name is cut into arguments. A
  call leaves the process as it was, so the index is unchanged for the next call.
\<close>

theorem candidates_depend_on_name_and_index:
  assumes "index st = index st'"
    and "stringify symbol = stringify symbol'"
  shows "fst (get_candidates_for_symbol lib symbol st) =
           fst (get_candidates_for_symbol lib symbol' st')
    \<and> snd (get_candidates_for_symbol lib symbol st) = st"
  using assms by (simp add: get_candidates_for_symbol_def)

theorem candidates_depend_on_name_and_index_example:
  "fst (get_candidates_for_symbol stand_in [''path''] built) =
     fst (get_candidates_for_symbol stand_in [''pa'', ''th'']
        (built\<lparr>sys_path := [], stdout := [''Failed to build index'']\<rparr>))
   \<and> snd (get_candidates_for_symbol stand_in [''path''] built) = built
   \<and> fst (get_candidates_for_symbol stand_in [''path''] built) =
       Inr [''from os import path'', ''from sys import path'']"
  using candidates_depend_on_name_and_index[where lib = stand_in and st = built
          and st' = "built\<lparr>sys_path := [], stdout := [''Failed to build index'']\<rparr>"
          and symbol = "[''path'']" and symbol' = "[''pa'', ''th'']"]
  by (simp add: get_candidates_for_symbol_def stand_in_def built_def fresh_def stringify_def
      and_then_def Let_def)

text \<open>
  C8. With an index built, a symbol for which the library yields no triple gets the
  empty list, and no exception.
\<close>

theorem candidates_empty_without_hits:
  assumes "index st = Some i"
    and "SymbolIndex_symbol_scores lib i (stringify symbol) = Inr []"
  shows "get_candidates_for_symbol lib symbol st = (Inr [], st)"
  using assms by (simp add: get_candidates_for_symbol_def and_then_def)

theorem candidates_empty_without_hits_example:
  "get_candidates_for_symbol stand_in [''zzz_not_a_real_symbol''] built = (Inr [], built)"
  using candidates_empty_without_hits[where st = built
          and i = "[''/usr/lib/python3'', ''/home/me/project'']"
          and lib = stand_in and symbol = "[''zzz_not_a_real_symbol'']"]
  by (simp add: stand_in_def built_def fresh_def stringify_def)

subsection \<open>The import statement\<close>



text \<open>
  C5, as the code has it. The statement is not validated. For a statement that neither
  starts with \<^verbatim>\<open>import \<close> nor contains \<^verbatim>\<open> import \<close>, nothing is added and the
  value is the library's update for the source as it is. The call raises only an
  exception that one of the four calls into the library raised.
\<close>

theorem import_statement_not_validated:
  "(\<not> startswith (stringify statement) ''import ''
      \<and> str_find (stringify statement) '' import '' < 0 \<longrightarrow>
      get_import_statement lib [source, statement] st =
        (and_then (Imports lib (index st) (stringify source)) (Imports_get_update lib), st))
   \<and> (fst (get_import_statement lib [source, statement] st) = Inl e \<longrightarrow>
      Imports lib (index st) (stringify source) = Inl e
      \<or> (\<exists>imports module. Imports_add_import lib imports module = Inl e)
      \<or> (\<exists>imports module name. Imports_add_import_from lib imports module name = Inl e)
      \<or> (\<exists>imports. Imports_get_update lib imports = Inl e))"
  unfolding get_import_statement_two
  by (auto simp: and_then_def split: sum.splits if_splits)

theorem import_statement_not_validated_example:
  "get_import_statement stand_in [[''x = 1''], [''garbage'']] built = (Inr (0, 0, []), built)"
  using import_statement_not_validated[where statement = "[''garbage'']" and lib = stand_in
          and source = "[''x = 1'']" and st = built]
  by (simp add: stand_in_def built_def fresh_def stringify_def and_then_def
      str_find_def startswith_def)

text \<open>
  C5 as stated fails for the statement \<^verbatim>\<open>garbage\<close>, which has neither form: the
  call returns an edit.
\<close>

theorem unmatched_statement_returns_edit:
  "fst (get_import_statement stand_in [[''x = 1''], [''garbage'']] built) = Inr (0, 0, [])"
  by (simp add: get_import_statement_def stand_in_def built_def fresh_def
      stringify_def and_then_def str_find_def startswith_def)

subsection \<open>Before the first build\<close>

text \<open>
  C10, as the code has it. While the global is \<^verbatim>\<open>None\<close>, the candidates call
  raises \<^verbatim>\<open>AttributeError\<close>. The import statement call does not touch the
  global: it hands \<^verbatim>\<open>None\<close> to the constructor of the library and goes on as
  after a build. Its outcome is that of the calls into the library: it raises the
  exception of the first of them that raises (the constructor, the addition of the
  import, the update), and returns the library's edit when none does.
\<close>

theorem before_first_build:
  assumes "index st = None"
  shows "get_candidates_for_symbol lib symbol st = (Inl AttributeError, st)
    \<and> get_import_statement lib [source, statement] st =
       (and_then (Imports lib None (stringify source)) (\<lambda>imports.
        and_then
          (if startswith (stringify statement) ''import '' then
             Imports_add_import lib imports (slice_from (stringify statement) 7)
           else if str_find (stringify statement) '' import '' \<ge> 0 then
             Imports_add_import_from lib imports
               (slice (stringify statement) 5 (str_find (stringify statement) '' import ''))
               (slice_from (stringify statement)
                  (str_find (stringify statement) '' import '' + 8))
           else Inr imports)
          (Imports_get_update lib)), st)"
  using assms unfolding get_import_statement_two
  by (simp add: get_candidates_for_symbol_def)

theorem before_first_build_example:
  "get_candidates_for_symbol stand_in [''path''] fresh = (Inl AttributeError, fresh)
   \<and> get_import_statement stand_in [[''x = 1''], [''import os'']] fresh =
       (Inl AttributeError, fresh)
   \<and> get_import_statement stand_in [[''x = 1''], [''from os import path'']] fresh =
       (Inl AttributeError, fresh)
   \<and> get_import_statement stand_in [[''x = 1''], [''garbage'']] fresh =
       (Inr (0, 0, []), fresh)"
  using before_first_build[where st = fresh and lib = stand_in and symbol = "[''path'']"
          and source = "[''x = 1'']" and statement = "[''import os'']"]
        before_first_build[where st = fresh and lib = stand_in and symbol = "[''path'']"
          and source = "[''x = 1'']" and statement = "[''from os import path'']"]
        before_first_build[where st = fresh and lib = stand_in and symbol = "[''path'']"
          and source = "[''x = 1'']" and statement = "[''garbage'']"]
  by (simp add: stand_in_def stand_in_add_def fresh_def stringify_def and_then_def
      str_find_def startswith_def slice_def slice_from_def slice_bound_def)

text \<open>
  C10 as stated fails for the import statement call where the library accepts
  \<^verbatim>\<open>None\<close> and is asked to add nothing: before any build, a source without
  imports and the statement \<^verbatim>\<open>garbage\<close> get an edit.
\<close>

theorem import_statement_before_build_returns:
  "index fresh = None
   \<and> fst (get_import_statement stand_in [[''x = 1''], [''garbage'']] fresh) = Inr (0, 0, [])"
  by (simp add: get_import_statement_def stand_in_def fresh_def
      stringify_def and_then_def str_find_def startswith_def)

end
